theory Spec2Isabelle
  imports Main
begin

section \<open>JavaScript strings as used by the action\<close>

text \<open>
  The action is modelled from its latest revision, the third listing of
  \<^verbatim>\<open>src/unnamed/part_000\<close> (lines 765 to 1162; the line numbers given below are lines
  of \<^verbatim>\<open>part_000\<close>). It is the revision with pull-request refs, the
  \<^verbatim>\<open>skip_docker_login\<close> input and the \<^verbatim>\<open>image_suffix_clean\<close> output. The file
  \<^verbatim>\<open>src/src/index.ts\<close> is an earlier revision, which knows neither pull requests nor
  tags as production.

  The action works on JavaScript strings. A string is modelled as a \<^typ>\<open>string\<close>, one
  \<^typ>\<open>char\<close> per code unit. An optional parameter (\<^verbatim>\<open>x?: string\<close>, \<^verbatim>\<open>string | null\<close>) is a \<^typ>\<open>string option\<close>,
  \<^term>\<open>None\<close> standing for \<^verbatim>\<open>undefined\<close> and \<^verbatim>\<open>null\<close>. The code only ever tests such
  a value for truthiness before using it: \<^verbatim>\<open>undefined\<close>, \<^verbatim>\<open>null\<close> and the empty string
  are falsy, every other string is truthy.
\<close>

definition truthy :: "string option \<Rightarrow> bool" where
  "truthy v = (case v of None \<Rightarrow> False | Some s \<Rightarrow> s \<noteq> [])"

text \<open>The string held by a truthy value (the empty string otherwise).\<close>

definition str_of :: "string option \<Rightarrow> string" where
  "str_of v = (case v of None \<Rightarrow> [] | Some s \<Rightarrow> s)"

text \<open>\<^verbatim>\<open>s.startsWith(p)\<close>\<close>

definition startsWith :: "string \<Rightarrow> string \<Rightarrow> bool" where
  "startsWith s p = (take (length p) s = p)"

text \<open>
  \<^verbatim>\<open>s.replace(pat, rep)\<close> with a string pattern: the first occurrence of \<^verbatim>\<open>pat\<close> is
  replaced, the rest of the string is kept. (The action always passes the empty
  replacement, which has no \<^verbatim>\<open>$\<close> patterns.)
\<close>

fun replace_str :: "string \<Rightarrow> string \<Rightarrow> string \<Rightarrow> string" where
  "replace_str [] pat rep = (if pat = [] then rep else [])"
| "replace_str (c # cs) pat rep =
     (if startsWith (c # cs) pat then rep @ drop (length pat) (c # cs)
      else c # replace_str cs pat rep)"

text \<open>The character classes of the regular expressions.\<close>

definition lower_letters :: string where
  "lower_letters = ''abcdefghijklmnopqrstuvwxyz''"

definition upper_letters :: string where
  "upper_letters = ''ABCDEFGHIJKLMNOPQRSTUVWXYZ''"

definition digits :: string where
  "digits = ''0123456789''"

text \<open>\<^verbatim>\<open>\d\<close>\<close>

definition is_digit :: "char \<Rightarrow> bool" where
  "is_digit c = (c \<in> set digits)"

text \<open>\<^verbatim>\<open>[a-zA-Z0-9]\<close>\<close>

definition is_alnum :: "char \<Rightarrow> bool" where
  "is_alnum c = (c \<in> set lower_letters \<or> c \<in> set upper_letters \<or> c \<in> set digits)"

text \<open>
  \<^verbatim>\<open>s.toLowerCase()\<close>. The action applies it only to the result of one of the two
  regular-expression replacements below, a string over \<^verbatim>\<open>[a-zA-Z0-9.-]\<close>, where it maps
  \<^verbatim>\<open>A-Z\<close> to \<^verbatim>\<open>a-z\<close> and leaves every other character as it is.
\<close>

definition toLowerCase_char :: "char \<Rightarrow> char" where
  "toLowerCase_char c =
     (case map_of (zip upper_letters lower_letters) c of Some l \<Rightarrow> l | None \<Rightarrow> c)"

definition toLowerCase :: "string \<Rightarrow> string" where
  "toLowerCase s = map toLowerCase_char s"

text \<open>\<^verbatim>\<open>s.replace(/[^a-zA-Z0-9]/g, '-')\<close>\<close>

definition replace_non_alnum :: "string \<Rightarrow> string" where
  "replace_non_alnum s = map (\<lambda>c. if is_alnum c then c else CHR ''-'') s"

text \<open>\<^verbatim>\<open>s.replace(/[^a-zA-Z0-9.]/g, '-')\<close>\<close>

definition replace_non_alnum_dot :: "string \<Rightarrow> string" where
  "replace_non_alnum_dot s =
     map (\<lambda>c. if is_alnum c \<or> c = CHR ''.'' then c else CHR ''-'') s"

text \<open>\<^verbatim>\<open>s.replace(/^-/, '')\<close>\<close>

definition strip_leading_dash :: "string \<Rightarrow> string" where
  "strip_leading_dash s = (if startsWith s ''-'' then drop 1 s else s)"

text \<open>\<^verbatim>\<open>s.split('/')\<close>: the segments between the separators, at least one.\<close>

fun split_str :: "char \<Rightarrow> string \<Rightarrow> string list" where
  "split_str sep [] = [[]]"
| "split_str sep (c # cs) =
     (if c = sep then [] # split_str sep cs
      else (case split_str sep cs of
              [] \<Rightarrow> [[c]]
            | seg # segs \<Rightarrow> (c # seg) # segs))"

text \<open>\<^verbatim>\<open>xs[i]\<close>: \<^verbatim>\<open>undefined\<close> out of range.\<close>

definition index_at :: "'a list \<Rightarrow> nat \<Rightarrow> 'a option" where
  "index_at xs i = (if i < length xs then Some (xs ! i) else None)"

section \<open>The pure functions of the action\<close>

text \<open>\<^verbatim>\<open>isProductionBranch\<close> (lines 788 to 791).\<close>

definition isProductionBranch :: "string \<Rightarrow> string option \<Rightarrow> bool" where
  "isProductionBranch branch masterBranchOverride =
     (let productionBranches =
            (if truthy masterBranchOverride then [str_of masterBranchOverride]
             else [''main'', ''master''])
      in branch \<in> set productionBranches)"

text \<open>\<^verbatim>\<open>isTag\<close> and \<^verbatim>\<open>isPullRequest\<close> (lines 796 to 805).\<close>

definition isTag :: "string \<Rightarrow> bool" where
  "isTag ref = startsWith ref ''refs/tags/''"

definition isPullRequest :: "string \<Rightarrow> bool" where
  "isPullRequest ref = startsWith ref ''refs/pull/''"

text \<open>
  \<^verbatim>\<open>extractPullRequestId\<close> (lines 810 to 817): the match of
  \<^verbatim>\<open>/^refs\/pull\/(\d+)\//\<close>, that is the longest run of digits after the prefix,
  when it is not empty and a slash follows it.
\<close>

definition extractPullRequestId :: "string \<Rightarrow> string option" where
  "extractPullRequestId ref =
     (if startsWith ref ''refs/pull/'' then
        (let rest = drop (length ''refs/pull/'') ref;
             ds = takeWhile is_digit rest
         in if ds \<noteq> [] \<and> startsWith (dropWhile is_digit rest) ''/'' then Some ds else None)
      else None)"

text \<open>\<^verbatim>\<open>generateEnvironmentName\<close> (lines 822 to 855).\<close>

definition generateEnvironmentName ::
  "string \<Rightarrow> string option \<Rightarrow> string option \<Rightarrow> bool \<Rightarrow> bool \<Rightarrow> string option \<Rightarrow> string" where
  "generateEnvironmentName branch environmentNameOverride masterBranchOverride
       isTagRef isPrRef prId =
     (if truthy environmentNameOverride then str_of environmentNameOverride
      else if isTagRef then ''production''
      else if isPrRef \<and> truthy prId then ''pr-'' @ str_of prId
      else if isProductionBranch branch masterBranchOverride then ''production''
      else if branch = ''develop'' then ''develop''
      else if startsWith branch ''feature/'' then toLowerCase (replace_non_alnum branch)
      else toLowerCase (replace_non_alnum branch))"

text \<open>\<^verbatim>\<open>generateImageSuffix\<close> (lines 860 to 888).\<close>

definition generateImageSuffix ::
  "string \<Rightarrow> string option \<Rightarrow> bool \<Rightarrow> bool \<Rightarrow> string option \<Rightarrow> string" where
  "generateImageSuffix branch masterBranchOverride isTagRef isPrRef prId =
     (if isTagRef then ''-'' @ branch
      else if isPrRef \<and> truthy prId then ''-pr-'' @ str_of prId
      else if isProductionBranch branch masterBranchOverride then ''-latest''
      else if branch = ''develop'' then ''-develop''
      else if startsWith branch ''feature/'' then
        (let safeBranchName = toLowerCase (replace_non_alnum_dot branch) in ''-'' @ safeBranchName)
      else
        (let safeBranchName = toLowerCase (replace_non_alnum_dot branch) in ''-'' @ safeBranchName))"

text \<open>\<^verbatim>\<open>stripProtocol\<close> (lines 893 to 895): \<^verbatim>\<open>endpoint.replace(/^https?:\/\//, '')\<close>.\<close>

definition stripProtocol :: "string \<Rightarrow> string" where
  "stripProtocol endpoint =
     (if startsWith endpoint ''http://'' then drop (length ''http://'') endpoint
      else if startsWith endpoint ''https://'' then drop (length ''https://'') endpoint
      else endpoint)"

section \<open>The run\<close>

text \<open>
  What the run reads: the values of the action's inputs (the empty string for an input
  that is not supplied, as \<^verbatim>\<open>core.getInput\<close> returns it), the process environment
  (\<^term>\<open>None\<close> for a variable that is not set), and the answers
  of the remote API and of the container engine. A rejected call carries the thrown
  value: whether it is an \<^verbatim>\<open>Error\<close>, its \<^verbatim>\<open>message\<close>, and its \<^verbatim>\<open>response?.status\<close>.
  The registry credentials are asked for twice, so their answer takes the number of
  earlier requests.
\<close>

record thrown =
  err_isError :: bool
  err_message :: string
  err_status :: "nat option"

datatype 'a promise = Resolves 'a | Rejects thrown

record ecr_data =
  data_endpoint :: "string option"
  data_username :: "string option"
  data_password :: "string option"

record world =
  quant_api_key :: string
  quant_organization :: string
  quant_application :: string
  master_branch_override :: string
  environment_name_override :: string
  base_url :: string
  skip_docker_login :: string
  GITHUB_REF :: "string option"
  GITHUB_REPOSITORY :: "string option"
  listApplications :: "string \<Rightarrow> unit promise"
  getEcrLoginCredentials :: "nat \<Rightarrow> string \<Rightarrow> ecr_data option promise"
  getApplication :: "string \<Rightarrow> string option \<Rightarrow> unit promise"
  getEnvironment :: "string \<Rightarrow> string option \<Rightarrow> string \<Rightarrow> unit promise"
  exec_exec :: "string \<Rightarrow> string list \<Rightarrow> unit promise"

text \<open>
  What the run does: the remote calls and external commands in the order they are
  made, the outputs in the order they are set, the message of \<^verbatim>\<open>core.setFailed\<close>, and
  the error that leaves \<^verbatim>\<open>run\<close> uncaught (a required input that is not supplied). Log
  lines (\<^verbatim>\<open>core.info\<close>, \<^verbatim>\<open>core.warning\<close>, \<^verbatim>\<open>core.error\<close>) are not recorded.
\<close>

datatype call =
    ListApplications string
  | GetEcrLoginCredentials string
  | GetApplication string "string option"
  | GetEnvironment string "string option" string
  | Exec string "string list"

record outcome =
  calls :: "call list"
  outputs :: "(string \<times> string) list"
  failed :: "string option"
  uncaught :: "string option"

definition setFailed :: "call list \<Rightarrow> string \<Rightarrow> outcome" where
  "setFailed cs msg = \<lparr>calls = cs, outputs = [], failed = Some msg, uncaught = None\<rparr>"

text \<open>\<^verbatim>\<open>e instanceof Error ? e.message : 'Unknown error'\<close>\<close>

definition errorMessage :: "thrown \<Rightarrow> string" where
  "errorMessage e = (if err_isError e then err_message e else ''Unknown error'')"

text \<open>\<^verbatim>\<open>status === 422 || status === 401 || status === 403\<close>\<close>

definition fatal_status :: "thrown \<Rightarrow> bool" where
  "fatal_status e =
     (err_status e = Some 422 \<or> err_status e = Some 401 \<or> err_status e = Some 403)"

text \<open>\<^verbatim>\<open>b.toString()\<close>\<close>

definition bool_toString :: "bool \<Rightarrow> string" where
  "bool_toString b = (if b then ''true'' else ''false'')"

subsection \<open>Ref classification (lines 948 to 971)\<close>

record ref_descriptor =
  d_branch :: string
  d_isTag :: bool
  d_isPr :: bool
  d_prId :: "string option"

definition classify_ref :: "string \<Rightarrow> string + ref_descriptor" where
  "classify_ref githubRef =
     (if startsWith githubRef ''refs/tags/'' then
        Inr \<lparr>d_branch = replace_str githubRef ''refs/tags/'' [], d_isTag = True,
             d_isPr = False, d_prId = None\<rparr>
      else if startsWith githubRef ''refs/pull/'' then
        (let prId = extractPullRequestId githubRef
         in if \<not> truthy prId then
              Inl (''Could not extract pull request ID from ref: '' @ githubRef)
            else
              Inr \<lparr>d_branch = ''pr-'' @ str_of prId, d_isTag = False,
                   d_isPr = True, d_prId = prId\<rparr>)
      else if startsWith githubRef ''refs/heads/'' then
        Inr \<lparr>d_branch = replace_str githubRef ''refs/heads/'' [], d_isTag = False,
             d_isPr = False, d_prId = None\<rparr>
      else Inl (''Unknown ref format: '' @ githubRef))"

subsection \<open>Application name, environment and suffix (lines 973 to 1005)\<close>

record resolved_target =
  t_applicationName :: "string option"
  t_isProduction :: bool
  t_environmentName :: string
  t_imageSuffix :: string

definition resolve_target ::
  "ref_descriptor \<Rightarrow> string \<Rightarrow> string \<Rightarrow> string \<Rightarrow> string \<Rightarrow> resolved_target" where
  "resolve_target d githubRepository applicationOverride masterBranchOverride
       environmentNameOverride =
     (let branch = d_branch d; isTag = d_isTag d; isPr = d_isPr d; prId = d_prId d;
          applicationName =
            (if applicationOverride \<noteq> [] then Some applicationOverride
             else index_at (split_str CHR ''/'' githubRepository) 1);
          isProduction =
            (if environmentNameOverride \<noteq> [] then isTag
             else isProductionBranch branch (Some masterBranchOverride) \<or> isTag);
          environmentName =
            generateEnvironmentName branch (Some environmentNameOverride)
              (Some masterBranchOverride) isTag isPr prId;
          imageSuffix =
            (if environmentNameOverride \<noteq> [] then
               (let safeEnvName = toLowerCase (replace_non_alnum environmentNameOverride)
                in ''-'' @ safeEnvName)
             else generateImageSuffix branch (Some masterBranchOverride) isTag isPr prId)
      in \<lparr>t_applicationName = applicationName, t_isProduction = isProduction,
           t_environmentName = environmentName, t_imageSuffix = imageSuffix\<rparr>)"

text \<open>Classification and resolution together: what the run knows before any remote call.\<close>

definition resolve ::
  "string \<Rightarrow> string \<Rightarrow> string \<Rightarrow> string \<Rightarrow> string \<Rightarrow> string + resolved_target" where
  "resolve githubRef githubRepository applicationOverride masterBranchOverride
       environmentNameOverride =
     (case classify_ref githubRef of
        Inl msg \<Rightarrow> Inl msg
      | Inr d \<Rightarrow>
          Inr (resolve_target d githubRepository applicationOverride masterBranchOverride
                 environmentNameOverride))"

subsection \<open>Validation against the remote API (lines 1020 to 1097)\<close>

text \<open>
  Each remote call sits in a \<^verbatim>\<open>try\<close> of its own whose \<^verbatim>\<open>catch\<close> does not throw, so the
  outer \<^verbatim>\<open>catch\<close> of this block is never entered by a rejected call.
\<close>

datatype validation = ValidationFailed outcome | Validated bool bool "call list"

definition check_environment ::
  "world \<Rightarrow> string \<Rightarrow> string option \<Rightarrow> string \<Rightarrow> bool \<Rightarrow> call list \<Rightarrow> validation" where
  "check_environment ctx organization applicationName environmentName projectExists cs =
     (let cs' = cs @ [GetEnvironment organization applicationName environmentName]
      in case getEnvironment ctx organization applicationName environmentName of
           Resolves _ \<Rightarrow> Validated projectExists True cs'
         | Rejects envError \<Rightarrow> Validated projectExists False cs')"

definition check_application ::
  "world \<Rightarrow> string \<Rightarrow> string option \<Rightarrow> string \<Rightarrow> call list \<Rightarrow> validation" where
  "check_application ctx organization applicationName environmentName cs =
     (let cs' = cs @ [GetApplication organization applicationName]
      in case getApplication ctx organization applicationName of
           Resolves _ \<Rightarrow>
             check_environment ctx organization applicationName environmentName True cs'
         | Rejects appError \<Rightarrow>
             if fatal_status appError then
               ValidationFailed
                 (setFailed cs' (''Failed to validate application: '' @ errorMessage appError))
             else
               check_environment ctx organization applicationName environmentName False cs')"

definition check_credentials ::
  "world \<Rightarrow> string \<Rightarrow> string option \<Rightarrow> string \<Rightarrow> call list \<Rightarrow> validation" where
  "check_credentials ctx organization applicationName environmentName cs =
     (let cs' = cs @ [GetEcrLoginCredentials organization]
      in case getEcrLoginCredentials ctx 0 organization of
           Resolves registryToken \<Rightarrow>
             check_application ctx organization applicationName environmentName cs'
         | Rejects ecrError \<Rightarrow>
             if fatal_status ecrError then
               ValidationFailed
                 (setFailed cs'
                    (''Failed to validate organization credentials: '' @ errorMessage ecrError))
             else check_application ctx organization applicationName environmentName cs')"

definition validate :: "world \<Rightarrow> string \<Rightarrow> string option \<Rightarrow> string \<Rightarrow> validation" where
  "validate ctx organization applicationName environmentName =
     (let cs = [ListApplications organization]
      in case listApplications ctx organization of
           Rejects orgError \<Rightarrow>
             ValidationFailed
               (setFailed cs
                  (''Organization '' @ [CHR 0x27] @ organization @ [CHR 0x27]
                     @ '' does not exist or is not accessible: '' @ errorMessage orgError))
         | Resolves applications \<Rightarrow>
             check_credentials ctx organization applicationName environmentName cs)"

subsection \<open>Registry login and outputs (lines 1100 to 1159)\<close>

text \<open>
  The credentials the run logs in with: endpoint, user name and password, when the
  second request resolves with all three truthy; \<^verbatim>\<open>hasCredentials\<close> is false otherwise
  (a rejected request is only warned about).
\<close>

definition usable_credentials :: "ecr_data option promise \<Rightarrow> (string \<times> string \<times> string) option" where
  "usable_credentials r =
     (case r of
        Rejects error \<Rightarrow> None
      | Resolves None \<Rightarrow> None
      | Resolves (Some d) \<Rightarrow>
          if truthy (data_password d) \<and> truthy (data_endpoint d) \<and> truthy (data_username d)
          then Some (str_of (data_endpoint d), str_of (data_username d), str_of (data_password d))
          else None)"

text \<open>
  The outputs set at the end of a successful run. \<^verbatim>\<open>core.setOutput\<close> writes
  \<^verbatim>\<open>undefined\<close> as the empty string.
\<close>

definition final_outputs :: "resolved_target \<Rightarrow> bool \<Rightarrow> bool \<Rightarrow> (string \<times> string) list" where
  "final_outputs t projectExists environmentExists =
     [(''project_exists'', bool_toString projectExists),
      (''environment_exists'', bool_toString environmentExists),
      (''quant_application'', str_of (t_applicationName t)),
      (''environment_name'', t_environmentName t),
      (''is_production'', bool_toString (t_isProduction t)),
      (''image_suffix'', t_imageSuffix t),
      (''image_suffix_clean'', strip_leading_dash (t_imageSuffix t))]"

text \<open>The arguments of \<^verbatim>\<open>dockerLogin\<close>'s command (lines 903 to 911).\<close>

definition docker_login_args :: "string \<Rightarrow> string \<Rightarrow> string \<Rightarrow> string list" where
  "docker_login_args endpoint username password =
     [''login'', endpoint, ''--username'', username, ''--password'', password]"

definition login_and_publish ::
  "world \<Rightarrow> string \<Rightarrow> resolved_target \<Rightarrow> bool \<Rightarrow> bool \<Rightarrow> call list \<Rightarrow> outcome" where
  "login_and_publish ctx organization t projectExists environmentExists cs =
     (let cs1 = cs @ [GetEcrLoginCredentials organization];
          credentials = usable_credentials (getEcrLoginCredentials ctx 1 organization);
          skipDockerLogin = (skip_docker_login ctx = ''true'')
      in case credentials of
           Some (endpoint, username, password) \<Rightarrow>
             (let strippedEndpoint = stripProtocol endpoint;
                  outs = (''stripped_endpoint'', strippedEndpoint)
                           # final_outputs t projectExists environmentExists
              in if skipDockerLogin then
                   \<lparr>calls = cs1, outputs = outs, failed = None, uncaught = None\<rparr>
                 else
                   (let args = docker_login_args endpoint username password;
                        cs2 = cs1 @ [Exec ''docker'' args]
                    in case exec_exec ctx ''docker'' args of
                         Resolves _ \<Rightarrow>
                           \<lparr>calls = cs2, outputs = outs, failed = None, uncaught = None\<rparr>
                       | Rejects error \<Rightarrow>
                           setFailed cs2
                             (if err_isError error then err_message error
                              else ''An unknown error occurred during initialization'')))
         | None \<Rightarrow>
             if skipDockerLogin then
               \<lparr>calls = cs1, outputs = final_outputs t projectExists environmentExists,
                 failed = None, uncaught = None\<rparr>
             else
               setFailed cs1
                 ''Failed to retrieve Quant Cloud Image Registry credentials and login was not skipped'')"

subsection \<open>\<^verbatim>\<open>run\<close> (lines 923 to 1160)\<close>

text \<open>
  \<^verbatim>\<open>core.getInput(name, { required: true })\<close> throws when the input is not supplied; the
  two required inputs are read first, outside any \<^verbatim>\<open>try\<close>.
\<close>

definition threw :: "string \<Rightarrow> outcome" where
  "threw msg = \<lparr>calls = [], outputs = [], failed = None, uncaught = Some msg\<rparr>"

definition run :: "world \<Rightarrow> outcome" where
  "run ctx =
     (if quant_api_key ctx = [] then threw ''Input required and not supplied: quant_api_key''
      else if quant_organization ctx = [] then
        threw ''Input required and not supplied: quant_organization''
      else
        (let organization = quant_organization ctx;
             githubRef = GITHUB_REF ctx;
             githubRepository = GITHUB_REPOSITORY ctx
         in if \<not> truthy githubRef \<or> \<not> truthy githubRepository then
              setFailed []
                ''GitHub context not available. This action must run in a GitHub Actions workflow.''
            else
              (case resolve (str_of githubRef) (str_of githubRepository)
                      (quant_application ctx) (master_branch_override ctx)
                      (environment_name_override ctx) of
                 Inl msg \<Rightarrow> setFailed [] msg
               | Inr t \<Rightarrow>
                   (case validate ctx organization (t_applicationName t)
                           (t_environmentName t) of
                      ValidationFailed out \<Rightarrow> out
                    | Validated projectExists environmentExists cs \<Rightarrow>
                        login_and_publish ctx organization t projectExists
                          environmentExists cs))))"

text \<open>
  The state in which the run enters the login block: the resolved target, the two
  existence flags and the calls made so far; \<^term>\<open>None\<close> when the run ended before.
\<close>

definition past_validation :: "world \<Rightarrow> (resolved_target \<times> bool \<times> bool \<times> call list) option" where
  "past_validation ctx =
     (if quant_api_key ctx = [] \<or> quant_organization ctx = [] then None
      else if \<not> truthy (GITHUB_REF ctx) \<or> \<not> truthy (GITHUB_REPOSITORY ctx) then None
      else
        (case resolve (str_of (GITHUB_REF ctx)) (str_of (GITHUB_REPOSITORY ctx))
                (quant_application ctx) (master_branch_override ctx)
                (environment_name_override ctx) of
           Inl msg \<Rightarrow> None
         | Inr t \<Rightarrow>
             (case validate ctx (quant_organization ctx) (t_applicationName t)
                     (t_environmentName t) of
                ValidationFailed out \<Rightarrow> None
              | Validated projectExists environmentExists cs \<Rightarrow>
                  Some (t, projectExists, environmentExists, cs))))"

text \<open>Whether the run ended fatally: \<^verbatim>\<open>core.setFailed\<close> was called, or an error left \<^verbatim>\<open>run\<close>.\<close>

definition fatal :: "outcome \<Rightarrow> bool" where
  "fatal out = (failed out \<noteq> None \<or> uncaught out \<noteq> None)"

text \<open>Whether the container engine's login command was run.\<close>

fun is_login :: "call \<Rightarrow> bool" where
  "is_login (Exec cmd args) = True"
| "is_login c = False"

definition login_performed :: "outcome \<Rightarrow> bool" where
  "login_performed out = list_ex is_login (calls out)"

text \<open>
  The conditions of the login block: the skip flag, whether the second credentials
  request gave usable credentials, and whether the login command, run with them, fails.
\<close>

definition skip_login :: "world \<Rightarrow> bool" where
  "skip_login ctx = (skip_docker_login ctx = ''true'')"

definition has_credentials :: "world \<Rightarrow> bool" where
  "has_credentials ctx =
     (case usable_credentials (getEcrLoginCredentials ctx 1 (quant_organization ctx)) of
        None \<Rightarrow> False
      | Some c \<Rightarrow> True)"

definition login_fails :: "world \<Rightarrow> bool" where
  "login_fails ctx =
     (case usable_credentials (getEcrLoginCredentials ctx 1 (quant_organization ctx)) of
        None \<Rightarrow> False
      | Some (endpoint, username, password) \<Rightarrow>
          (case exec_exec ctx ''docker'' (docker_login_args endpoint username password) of
             Resolves u \<Rightarrow> False
           | Rejects error \<Rightarrow> True))"

text \<open>The value of an output, when the run set it.\<close>

definition published :: "outcome \<Rightarrow> string \<Rightarrow> string option" where
  "published out name = map_of (outputs out) name"

subsection \<open>A sample run\<close>

text \<open>
  A push to a branch of \<^verbatim>\<open>owner/repo\<close>, every remote call answered, full credentials
  returned. The concrete runs below vary it.
\<close>

definition sample_credentials :: ecr_data where
  "sample_credentials =
     \<lparr>data_endpoint = Some ''https://registry.example'', data_username = Some ''user'',
      data_password = Some ''secret''\<rparr>"

definition sample_world :: world where
  "sample_world =
     \<lparr>quant_api_key = ''key'', quant_organization = ''org'', quant_application = [],
      master_branch_override = [], environment_name_override = [], base_url = [],
      skip_docker_login = [], GITHUB_REF = Some ''refs/heads/main'',
      GITHUB_REPOSITORY = Some ''owner/repo'',
      listApplications = (\<lambda>organization. Resolves ()),
      getEcrLoginCredentials = (\<lambda>n organization. Resolves (Some sample_credentials)),
      getApplication = (\<lambda>organization application. Resolves ()),
      getEnvironment = (\<lambda>organization application environment. Resolves ()),
      exec_exec = (\<lambda>cmd args. Resolves ())\<rparr>"

text \<open>The sample run with a login command that fails.\<close>

definition failing_login_world :: world where
  "failing_login_world =
     sample_world\<lparr>exec_exec := (\<lambda>cmd args. Rejects
        \<lparr>err_isError = True, err_message = ''The process docker failed with exit code 1'',
         err_status = None\<rparr>)\<rparr>"

text \<open>The error of a request answered with an HTTP status.\<close>

definition http_error :: "nat \<Rightarrow> thrown" where
  "http_error code =
     \<lparr>err_isError = True, err_message = ''Request failed'', err_status = Some code\<rparr>"

section \<open>Properties of the string primitives\<close>

lemma startsWith_iff: "startsWith s p = (\<exists>t. s = p @ t)"
  unfolding startsWith_def
  by (metis append_eq_conv_conj append_take_drop_id)

lemma replace_str_startsWith:
  "startsWith s p \<Longrightarrow> replace_str s p [] = drop (length p) s"
  by (cases s) (auto simp: startsWith_def)

lemma replace_str_prefix: "replace_str (p @ t) p [] = t"
  using replace_str_startsWith [of "p @ t" p] by (simp add: startsWith_def)

lemma split_str_no_sep: "sep \<notin> set s \<Longrightarrow> split_str sep s = [s]"
  by (induction s) auto

lemma toLowerCase_char_dot: "toLowerCase_char CHR ''.'' = CHR ''.''"
  by (simp add: toLowerCase_char_def upper_letters_def lower_letters_def)

lemma toLowerCase_char_dash: "toLowerCase_char CHR ''-'' = CHR ''-''"
  by (simp add: toLowerCase_char_def upper_letters_def lower_letters_def)

lemma toLowerCase_alnum_not_dot: "is_alnum c \<Longrightarrow> toLowerCase_char c \<noteq> CHR ''.''"
  by (auto simp: is_alnum_def toLowerCase_char_def upper_letters_def lower_letters_def
      digits_def)

text \<open>
  Lower-casing in code units: an upper-case letter moves up by 32, every other
  character stays.
\<close>

lemma upper_letters_lowered:
  "list_all (\<lambda>c. of_char (toLowerCase_char c) = (of_char c :: nat) + 32) upper_letters"
  by code_simp

lemma toLowerCase_upper:
  assumes "c \<in> set upper_letters"
  shows "of_char (toLowerCase_char c) = (of_char c :: nat) + 32"
  using upper_letters_lowered assms unfolding list_all_iff by blast

lemma toLowerCase_not_upper:
  assumes "c \<notin> set upper_letters"
  shows "toLowerCase_char c = c"
proof -
  have "map fst (zip upper_letters lower_letters) = upper_letters"
    by (simp add: upper_letters_def lower_letters_def)
  then have "fst ` set (zip upper_letters lower_letters) = set upper_letters"
    by (metis set_map)
  with assms have "map_of (zip upper_letters lower_letters) c = None"
    by (simp add: map_of_eq_None_iff)
  then show ?thesis by (simp add: toLowerCase_char_def)
qed

lemma dash_code: "of_char CHR ''-'' = (45::nat)"
  by code_simp

lemma slug_char_code:
  "of_char (if is_alnum c then toLowerCase_char c else CHR ''-'') =
     (if c \<in> set upper_letters then of_char c + 32
      else if c \<in> set lower_letters \<or> c \<in> set digits then of_char c
      else (45::nat))"
proof (cases "c \<in> set upper_letters")
  case True
  then show ?thesis by (simp add: is_alnum_def toLowerCase_upper)
next
  case False
  then show ?thesis by (simp add: is_alnum_def toLowerCase_not_upper dash_code)
qed

text \<open>The two slugs, character by character.\<close>

lemma slug_eq:
  "toLowerCase (replace_non_alnum s) =
     map (\<lambda>c. if is_alnum c then toLowerCase_char c else CHR ''-'') s"
  by (simp add: toLowerCase_def replace_non_alnum_def toLowerCase_char_dash)

lemma slug_dot_eq:
  "toLowerCase (replace_non_alnum_dot s) =
     map (\<lambda>c. if c = CHR ''.'' then CHR ''.''
              else if is_alnum c then toLowerCase_char c else CHR ''-'') s"
  by (simp add: toLowerCase_def replace_non_alnum_dot_def toLowerCase_char_dash
      toLowerCase_char_dot)

lemma slug_codes:
  "map of_char (toLowerCase (replace_non_alnum s)) =
     map (\<lambda>c. if c \<in> set upper_letters then of_char c + 32
              else if c \<in> set lower_letters \<or> c \<in> set digits then of_char c
              else (45::nat)) s"
  by (simp add: slug_eq slug_char_code)

lemma slug_no_dot: "CHR ''.'' \<notin> set (toLowerCase (replace_non_alnum s))"
  using toLowerCase_alnum_not_dot by (fastforce simp: slug_eq)

section \<open>Properties of classification and resolution\<close>

lemma classify_ref_tag:
  "classify_ref (''refs/tags/'' @ b) =
     Inr \<lparr>d_branch = b, d_isTag = True, d_isPr = False, d_prId = None\<rparr>"
  using replace_str_prefix [of "''refs/tags/''" b]
  by (simp add: classify_ref_def startsWith_def)

lemma classify_ref_heads:
  "classify_ref (''refs/heads/'' @ b) =
     Inr \<lparr>d_branch = b, d_isTag = False, d_isPr = False, d_prId = None\<rparr>"
  using replace_str_prefix [of "''refs/heads/''" b]
  by (simp add: classify_ref_def startsWith_def)

lemma classify_ref_isTag:
  "classify_ref r = Inr d \<Longrightarrow> d_isTag d = startsWith r ''refs/tags/''"
  by (auto simp: classify_ref_def Let_def split: if_splits)

lemma classify_ref_empty: "classify_ref [] = Inl ''Unknown ref format: ''"
  by (simp add: classify_ref_def startsWith_def)

lemma classify_ref_unknown:
  assumes "\<not> startsWith r ''refs/tags/''" and "\<not> startsWith r ''refs/pull/''"
    and "\<not> startsWith r ''refs/heads/''"
  shows "classify_ref r = Inl (''Unknown ref format: '' @ r)"
  using assms by (simp add: classify_ref_def)

lemma classify_ref_no_id:
  assumes "startsWith r ''refs/pull/''" and "extractPullRequestId r = None"
  shows "classify_ref r = Inl (''Could not extract pull request ID from ref: '' @ r)"
proof -
  from assms(1) obtain b where "r = ''refs/pull/'' @ b"
    by (auto simp: startsWith_iff)
  then have "\<not> startsWith r ''refs/tags/''"
    by (simp add: startsWith_def)
  with assms show ?thesis
    by (simp add: classify_ref_def truthy_def)
qed

lemma resolve_tag:
  "resolve (''refs/tags/'' @ b) repo ao mbo eo =
     Inr (resolve_target \<lparr>d_branch = b, d_isTag = True, d_isPr = False, d_prId = None\<rparr>
            repo ao mbo eo)"
  by (simp only: resolve_def classify_ref_tag sum.case)

lemma resolve_heads:
  "resolve (''refs/heads/'' @ b) repo ao mbo eo =
     Inr (resolve_target \<lparr>d_branch = b, d_isTag = False, d_isPr = False, d_prId = None\<rparr>
            repo ao mbo eo)"
  by (simp only: resolve_def classify_ref_heads sum.case)

lemma generateImageSuffix_dash:
  "\<exists>body. generateImageSuffix branch masterBranchOverride isTagRef isPrRef prId =
            CHR ''-'' # body"
  by (simp add: generateImageSuffix_def Let_def)

lemma resolve_target_suffix_dash:
  "\<exists>body. t_imageSuffix (resolve_target d repo ao mbo eo) = CHR ''-'' # body"
  using generateImageSuffix_dash by (simp add: resolve_target_def Let_def)

section \<open>Properties of the run\<close>

subsection \<open>Validation\<close>

lemma setFailed_simps:
  "calls (setFailed cs msg) = cs" "outputs (setFailed cs msg) = []"
  "failed (setFailed cs msg) = Some msg" "uncaught (setFailed cs msg) = None"
  by (simp_all add: setFailed_def)

lemma fatal_simps: "fatal (setFailed cs msg)" "fatal (threw msg)"
  by (simp_all add: fatal_def setFailed_def threw_def)

lemmas validation_defs =
  validate_def check_credentials_def check_application_def check_environment_def

text \<open>A failed validation has set no output and run no command; its first call lists
  the applications.\<close>

lemma validate_failed:
  assumes "validate ctx org app env = ValidationFailed out"
  shows "outputs out = []" and "fatal out" and "uncaught out = None"
    and "\<not> list_ex is_login (calls out)" and "take 1 (calls out) = [ListApplications org]"
  using assms
  by (auto simp: validation_defs Let_def setFailed_simps fatal_def
      split: promise.splits if_splits)

lemma validate_ok:
  assumes "validate ctx org app env = Validated pe ee cs"
  shows "\<not> list_ex is_login cs" and "take 1 cs = [ListApplications org]"
  using assms
  by (auto simp: validation_defs Let_def split: promise.splits if_splits)

text \<open>The sibling of the environment lookup: the application lookup ends the run on a
  401, 403 or 422.\<close>

lemma application_lookup_fatal:
  assumes "getApplication ctx org app = Rejects appError" and "fatal_status appError"
  shows "check_application ctx org app env cs =
     ValidationFailed (setFailed (cs @ [GetApplication org app])
       (''Failed to validate application: '' @ errorMessage appError))"
  using assms by (simp add: check_application_def Let_def)

subsection \<open>The ways a run ends before the login block\<close>

lemma run_missing_key:
  "quant_api_key ctx = [] \<Longrightarrow>
   run ctx = threw ''Input required and not supplied: quant_api_key''"
  by (simp add: run_def)

lemma run_missing_organization:
  "quant_api_key ctx \<noteq> [] \<Longrightarrow> quant_organization ctx = [] \<Longrightarrow>
   run ctx = threw ''Input required and not supplied: quant_organization''"
  by (simp add: run_def)

lemma run_no_context:
  "quant_api_key ctx \<noteq> [] \<Longrightarrow> quant_organization ctx \<noteq> [] \<Longrightarrow>
   \<not> truthy (GITHUB_REF ctx) \<or> \<not> truthy (GITHUB_REPOSITORY ctx) \<Longrightarrow>
   run ctx = setFailed []
     ''GitHub context not available. This action must run in a GitHub Actions workflow.''"
  by (simp add: run_def Let_def)

lemma run_bad_ref:
  "quant_api_key ctx \<noteq> [] \<Longrightarrow> quant_organization ctx \<noteq> [] \<Longrightarrow>
   truthy (GITHUB_REF ctx) \<Longrightarrow> truthy (GITHUB_REPOSITORY ctx) \<Longrightarrow>
   resolve (str_of (GITHUB_REF ctx)) (str_of (GITHUB_REPOSITORY ctx)) (quant_application ctx)
     (master_branch_override ctx) (environment_name_override ctx) = Inl msg \<Longrightarrow>
   run ctx = setFailed [] msg"
  by (simp add: run_def Let_def)

lemma run_validation_failed:
  "quant_api_key ctx \<noteq> [] \<Longrightarrow> quant_organization ctx \<noteq> [] \<Longrightarrow>
   truthy (GITHUB_REF ctx) \<Longrightarrow> truthy (GITHUB_REPOSITORY ctx) \<Longrightarrow>
   resolve (str_of (GITHUB_REF ctx)) (str_of (GITHUB_REPOSITORY ctx)) (quant_application ctx)
     (master_branch_override ctx) (environment_name_override ctx) = Inr t \<Longrightarrow>
   validate ctx (quant_organization ctx) (t_applicationName t) (t_environmentName t) =
     ValidationFailed out \<Longrightarrow>
   run ctx = out"
  by (simp add: run_def Let_def)

lemma past_validation_run:
  assumes "past_validation ctx = Some (t, pe, ee, cs)"
  shows "run ctx = login_and_publish ctx (quant_organization ctx) t pe ee cs"
  using assms
  by (auto simp: past_validation_def run_def Let_def
      split: if_splits sum.splits validation.splits)

lemma past_validation_target:
  assumes "past_validation ctx = Some (t, pe, ee, cs)"
  shows "\<exists>body. t_imageSuffix t = CHR ''-'' # body"
    and "\<not> list_ex is_login cs"
    and "take 1 cs = [ListApplications (quant_organization ctx)]"
  using assms resolve_target_suffix_dash
  by (auto simp: past_validation_def resolve_def dest: validate_ok
      split: if_splits sum.splits validation.splits)

lemma early_end:
  "outputs (setFailed [] msg) = [] \<and> fatal (setFailed [] msg)
   \<and> \<not> login_performed (setFailed [] msg)"
  "outputs (threw msg) = [] \<and> fatal (threw msg) \<and> \<not> login_performed (threw msg)"
  by (simp_all add: setFailed_def threw_def fatal_def login_performed_def)

lemma past_validation_none:
  assumes "past_validation ctx = None"
  shows "outputs (run ctx) = [] \<and> fatal (run ctx) \<and> \<not> login_performed (run ctx)"
proof -
  consider (key) "quant_api_key ctx = []"
    | (org) "quant_api_key ctx \<noteq> []" "quant_organization ctx = []"
    | (env) "quant_api_key ctx \<noteq> []" "quant_organization ctx \<noteq> []"
        "\<not> truthy (GITHUB_REF ctx) \<or> \<not> truthy (GITHUB_REPOSITORY ctx)"
    | (go) "quant_api_key ctx \<noteq> []" "quant_organization ctx \<noteq> []"
        "truthy (GITHUB_REF ctx)" "truthy (GITHUB_REPOSITORY ctx)"
    by blast
  then show ?thesis
  proof cases
    case key
    then show ?thesis by (simp add: run_missing_key early_end)
  next
    case org
    then show ?thesis by (simp add: run_missing_organization early_end)
  next
    case env
    then show ?thesis by (simp add: run_no_context early_end)
  next
    case go
    show ?thesis
    proof (cases "resolve (str_of (GITHUB_REF ctx)) (str_of (GITHUB_REPOSITORY ctx))
        (quant_application ctx) (master_branch_override ctx) (environment_name_override ctx)")
      case (Inl msg)
      with go show ?thesis by (simp add: run_bad_ref early_end)
    next
      case (Inr t)
      show ?thesis
      proof (cases "validate ctx (quant_organization ctx) (t_applicationName t)
          (t_environmentName t)")
        case (ValidationFailed out)
        with go Inr have "run ctx = out" by (rule run_validation_failed)
        with validate_failed [OF ValidationFailed] show ?thesis
          by (simp add: login_performed_def)
      next
        case (Validated pe ee cs)
        with go Inr assms show ?thesis by (simp add: past_validation_def)
      qed
    qed
  qed
qed

subsection \<open>The login block\<close>

lemma login_without_credentials:
  assumes "\<not> has_credentials ctx"
  shows "login_and_publish ctx (quant_organization ctx) t pe ee cs =
     (if skip_login ctx then
        \<lparr>calls = cs @ [GetEcrLoginCredentials (quant_organization ctx)],
          outputs = final_outputs t pe ee, failed = None, uncaught = None\<rparr>
      else setFailed (cs @ [GetEcrLoginCredentials (quant_organization ctx)])
        ''Failed to retrieve Quant Cloud Image Registry credentials and login was not skipped'')"
  using assms
  by (simp add: login_and_publish_def has_credentials_def skip_login_def Let_def
      split: option.splits)

lemma login_skipped:
  assumes "has_credentials ctx" and "skip_login ctx"
  shows "\<exists>e. login_and_publish ctx (quant_organization ctx) t pe ee cs =
     \<lparr>calls = cs @ [GetEcrLoginCredentials (quant_organization ctx)],
       outputs = (''stripped_endpoint'', e) # final_outputs t pe ee,
       failed = None, uncaught = None\<rparr>"
  using assms
  by (auto simp: login_and_publish_def has_credentials_def skip_login_def Let_def
      split: option.splits)

lemma login_succeeds:
  assumes "has_credentials ctx" and "\<not> skip_login ctx" and "\<not> login_fails ctx"
  shows "\<exists>e args. login_and_publish ctx (quant_organization ctx) t pe ee cs =
     \<lparr>calls = cs @ [GetEcrLoginCredentials (quant_organization ctx), Exec ''docker'' args],
       outputs = (''stripped_endpoint'', e) # final_outputs t pe ee,
       failed = None, uncaught = None\<rparr>"
  using assms
  by (auto simp: login_and_publish_def has_credentials_def skip_login_def login_fails_def
      Let_def split: option.splits promise.splits)

lemma login_rejected:
  assumes "has_credentials ctx" and "\<not> skip_login ctx" and "login_fails ctx"
  shows "\<exists>args msg. login_and_publish ctx (quant_organization ctx) t pe ee cs =
     setFailed (cs @ [GetEcrLoginCredentials (quant_organization ctx), Exec ''docker'' args])
       msg"
  using assms
  by (auto simp: login_and_publish_def has_credentials_def skip_login_def login_fails_def
      Let_def split: option.splits promise.splits)

lemma login_cases:
  obtains (none) "\<not> has_credentials ctx"
  | (skipped) "has_credentials ctx" "skip_login ctx"
  | (ok) "has_credentials ctx" "\<not> skip_login ctx" "\<not> login_fails ctx"
  | (rejected) "has_credentials ctx" "\<not> skip_login ctx" "login_fails ctx"
  by blast

lemma login_fatal:
  "fatal (login_and_publish ctx (quant_organization ctx) t pe ee cs) \<longleftrightarrow>
     \<not> skip_login ctx \<and> (\<not> has_credentials ctx \<or> login_fails ctx)"
proof (cases ctx rule: login_cases)
  case none
  then show ?thesis
    by (simp add: login_without_credentials fatal_simps) (simp add: fatal_def)
next
  case skipped
  from login_skipped [OF this, of t pe ee cs] skipped show ?thesis
    by (auto simp: fatal_def)
next
  case ok
  from login_succeeds [OF this, of t pe ee cs] ok show ?thesis
    by (auto simp: fatal_def)
next
  case rejected
  from login_rejected [OF this, of t pe ee cs] rejected show ?thesis
    by (auto simp: fatal_simps)
qed

lemma login_outputs:
  "outputs (login_and_publish ctx (quant_organization ctx) t pe ee cs) = []
   \<or> outputs (login_and_publish ctx (quant_organization ctx) t pe ee cs) =
       final_outputs t pe ee
   \<or> (\<exists>e. outputs (login_and_publish ctx (quant_organization ctx) t pe ee cs) =
          (''stripped_endpoint'', e) # final_outputs t pe ee)"
proof (cases ctx rule: login_cases)
  case none
  then show ?thesis by (simp add: login_without_credentials setFailed_simps)
next
  case skipped
  from login_skipped [OF this, of t pe ee cs] show ?thesis by auto
next
  case ok
  from login_succeeds [OF this, of t pe ee cs] show ?thesis by auto
next
  case rejected
  from login_rejected [OF this, of t pe ee cs] show ?thesis
    by (auto simp: setFailed_simps)
qed

lemma login_calls:
  "\<exists>cs'. calls (login_and_publish ctx (quant_organization ctx) t pe ee cs) = cs @ cs'"
proof (cases ctx rule: login_cases)
  case none
  then show ?thesis by (simp add: login_without_credentials setFailed_simps)
next
  case skipped
  from login_skipped [OF this, of t pe ee cs] show ?thesis by auto
next
  case ok
  from login_succeeds [OF this, of t pe ee cs] show ?thesis by auto
next
  case rejected
  from login_rejected [OF this, of t pe ee cs] show ?thesis
    by (auto simp: setFailed_simps)
qed

lemma published_final:
  assumes "t_imageSuffix t = CHR ''-'' # body"
    and "outs = final_outputs t pe ee
         \<or> outs = (''stripped_endpoint'', e) # final_outputs t pe ee"
  shows "map_of outs ''image_suffix'' = Some (CHR ''-'' # body)"
    and "map_of outs ''image_suffix_clean'' = Some body"
  using assms by (auto simp: final_outputs_def strip_leading_dash_def startsWith_def)

section \<open>The claims\<close>

subsection \<open>C1: tag refs\<close>

text \<open>
  C1, as stated, gives every tag ref the image suffix \<^verbatim>\<open>-\<close> followed by the tag name.
  The run takes the suffix from the environment-name override when one is supplied
  (lines 996 to 1001), also for a tag: the tag \<^verbatim>\<open>v1.2.0\<close> with the override \<^verbatim>\<open>qa\<close>
  resolves to the suffix \<^verbatim>\<open>-qa\<close>, not \<^verbatim>\<open>-v1.2.0\<close>.
\<close>

theorem tag_suffix_with_override:
  "resolve ''refs/tags/v1.2.0'' ''owner/repo'' [] [] ''qa'' =
     Inr \<lparr>t_applicationName = Some ''repo'', t_isProduction = True,
          t_environmentName = ''qa'', t_imageSuffix = ''-qa''\<rparr>"
  by code_simp

text \<open>
  C1, amended: for every ref that begins with \<^verbatim>\<open>refs/tags/\<close> the resolved
  \<^verbatim>\<open>isProduction\<close> flag is true; when no environment-name override is supplied, the
  environment name is \<^verbatim>\<open>production\<close> and the image suffix is \<^verbatim>\<open>-\<close> followed by the tag
  name (the ref without the prefix) verbatim.
\<close>

theorem tag_ref_resolution:
  assumes "startsWith githubRef ''refs/tags/''"
  shows "\<exists>t. resolve githubRef githubRepository applicationOverride masterBranchOverride
                environmentNameOverride = Inr t
           \<and> t_isProduction t
           \<and> (environmentNameOverride = [] \<longrightarrow>
                t_environmentName t = ''production''
                \<and> t_imageSuffix t = ''-'' @ drop (length ''refs/tags/'') githubRef)"
proof -
  from assms obtain b where r: "githubRef = ''refs/tags/'' @ b"
    by (auto simp: startsWith_iff)
  show ?thesis
    unfolding r resolve_tag
    by (simp add: resolve_target_def generateEnvironmentName_def generateImageSuffix_def
        truthy_def Let_def)
qed

text \<open>The tag \<^verbatim>\<open>v1.2.0\<close> of C1: production, \<^verbatim>\<open>production\<close>, \<^verbatim>\<open>-v1.2.0\<close>.\<close>

theorem tag_ref_resolution_v1_2_0:
  "startsWith ''refs/tags/v1.2.0'' ''refs/tags/''
   \<and> (\<exists>t. resolve ''refs/tags/v1.2.0'' ''owner/repo'' [] [] [] = Inr t
          \<and> t_isProduction t \<and> t_environmentName t = ''production''
          \<and> t_imageSuffix t = ''-v1.2.0'')"
  using tag_ref_resolution [of "''refs/tags/v1.2.0''" "''owner/repo''" "[]" "[]" "[]"]
  by (simp add: startsWith_def)

subsection \<open>C2: the environment-name override\<close>

text \<open>
  C2: for every input with an environment-name override (and a ref the classifier
  accepts), the environment name is the override verbatim, \<^verbatim>\<open>isProduction\<close> is true
  exactly when the ref is a tag, whatever the production-branch set, and the image suffix
  is \<^verbatim>\<open>-\<close> followed by the override with every character outside \<^verbatim>\<open>[a-zA-Z0-9]\<close> replaced
  by \<^verbatim>\<open>-\<close>, lower-cased. The last conjunct says the same in code units, without the
  model's lower-casing function: the suffix is the code of \<^verbatim>\<open>-\<close> (45), then for each
  character of the override its code plus 32 when it is an upper-case letter, its own
  code when it is a lower-case letter or a digit, and 45 otherwise.
\<close>

theorem environment_override_resolution:
  assumes "environmentNameOverride \<noteq> []" and "classify_ref githubRef = Inr d"
  shows "\<exists>t. resolve githubRef githubRepository applicationOverride masterBranchOverride
                environmentNameOverride = Inr t
           \<and> t_environmentName t = environmentNameOverride
           \<and> t_isProduction t = startsWith githubRef ''refs/tags/''
           \<and> t_imageSuffix t =
               CHR ''-'' # map (\<lambda>c. if is_alnum c then toLowerCase_char c else CHR ''-'')
                             environmentNameOverride
           \<and> map of_char (t_imageSuffix t) =
               (45::nat) #
                 map (\<lambda>c. if c \<in> set upper_letters then of_char c + 32
                          else if c \<in> set lower_letters \<or> c \<in> set digits then of_char c
                          else 45)
                   environmentNameOverride"
  using assms classify_ref_isTag [OF assms(2)] slug_codes [of environmentNameOverride]
  by (simp add: resolve_def resolve_target_def generateEnvironmentName_def truthy_def
      str_of_def Let_def slug_eq dash_code)

text \<open>
  On the branch \<^verbatim>\<open>main\<close>, a production branch: the override \<^verbatim>\<open>qa.env\<close> gives not
  production, \<^verbatim>\<open>qa.env\<close> and \<^verbatim>\<open>-qa-env\<close>; the override \<^verbatim>\<open>QA.Env\<close> gives not production,
  \<^verbatim>\<open>QA.Env\<close> and, lower-cased, the same suffix \<^verbatim>\<open>-qa-env\<close>.
\<close>

theorem environment_override_qa_env:
  "''qa.env'' \<noteq> [] \<and> ''QA.Env'' \<noteq> []
   \<and> classify_ref ''refs/heads/main'' =
       Inr \<lparr>d_branch = ''main'', d_isTag = False, d_isPr = False, d_prId = None\<rparr>
   \<and> (\<exists>t. resolve ''refs/heads/main'' ''owner/repo'' [] [] ''qa.env'' = Inr t
          \<and> t_environmentName t = ''qa.env'' \<and> t_isProduction t = False
          \<and> t_imageSuffix t = ''-qa-env'')
   \<and> (\<exists>t. resolve ''refs/heads/main'' ''owner/repo'' [] [] ''QA.Env'' = Inr t
          \<and> t_environmentName t = ''QA.Env'' \<and> t_isProduction t = False
          \<and> t_imageSuffix t = ''-qa-env''
          \<and> map of_char (t_imageSuffix t) = [45, 113, 97, 45, 101, 110, 118::nat])"
proof -
  let ?d = "\<lparr>d_branch = ''main'', d_isTag = False, d_isPr = False, d_prId = None\<rparr>"
  have c: "classify_ref ''refs/heads/main'' = Inr ?d"
    by code_simp
  have n: "''qa.env'' \<noteq> []" "''QA.Env'' \<noteq> []"
    by simp_all
  have s: "\<not> startsWith ''refs/heads/main'' ''refs/tags/''"
    by code_simp
  have l: "map (\<lambda>c. if is_alnum c then toLowerCase_char c else CHR ''-'') ''qa.env'' =
      ''qa-env''"
    "map (\<lambda>c. if is_alnum c then toLowerCase_char c else CHR ''-'') ''QA.Env'' =
      ''qa-env''"
    by code_simp+
  have k: "map of_char ''-qa-env'' = [45, 113, 97, 45, 101, 110, 118::nat]"
    by code_simp
  from environment_override_resolution [OF n(1) c, of "''owner/repo''" "[]" "[]"]
  have a: "\<exists>t. resolve ''refs/heads/main'' ''owner/repo'' [] [] ''qa.env'' = Inr t
          \<and> t_environmentName t = ''qa.env'' \<and> t_isProduction t = False
          \<and> t_imageSuffix t = ''-qa-env''"
    unfolding l using s by auto
  from environment_override_resolution [OF n(2) c, of "''owner/repo''" "[]" "[]"]
  have b: "\<exists>t. resolve ''refs/heads/main'' ''owner/repo'' [] [] ''QA.Env'' = Inr t
          \<and> t_environmentName t = ''QA.Env'' \<and> t_isProduction t = False
          \<and> t_imageSuffix t = ''-qa-env''
          \<and> map of_char (t_imageSuffix t) = [45, 113, 97, 45, 101, 110, 118::nat]"
    unfolding l using s k by auto
  from n c a b show ?thesis by blast
qed

subsection \<open>C3: the two slugs\<close>

text \<open>
  C3: for a branch that is neither a production branch nor \<^verbatim>\<open>develop\<close>, with no
  environment-name override, the environment name is the branch name with every
  character outside \<^verbatim>\<open>[a-zA-Z0-9]\<close> replaced by \<^verbatim>\<open>-\<close> and lower-cased, so it holds no
  \<^verbatim>\<open>.\<close>; the image suffix is \<^verbatim>\<open>-\<close> followed by the same, except that a \<^verbatim>\<open>.\<close> stays.
\<close>

theorem branch_slugs_differ_in_dot:
  assumes "\<not> truthy environmentNameOverride"
    and "\<not> isProductionBranch branch masterBranchOverride"
    and "branch \<noteq> ''develop''"
  shows "generateEnvironmentName branch environmentNameOverride masterBranchOverride
           False False prId =
           map (\<lambda>c. if is_alnum c then toLowerCase_char c else CHR ''-'') branch
       \<and> CHR ''.'' \<notin> set (generateEnvironmentName branch environmentNameOverride
                             masterBranchOverride False False prId)
       \<and> generateImageSuffix branch masterBranchOverride False False prId =
           CHR ''-'' # map (\<lambda>c. if c = CHR ''.'' then CHR ''.''
                                 else if is_alnum c then toLowerCase_char c else CHR ''-'')
                         branch"
proof -
  have e: "generateEnvironmentName branch environmentNameOverride masterBranchOverride
             False False prId = toLowerCase (replace_non_alnum branch)"
    using assms by (simp add: generateEnvironmentName_def)
  have s: "generateImageSuffix branch masterBranchOverride False False prId =
             CHR ''-'' # toLowerCase (replace_non_alnum_dot branch)"
    using assms by (simp add: generateImageSuffix_def)
  show ?thesis
    unfolding e s using slug_no_dot [of branch] by (simp add: slug_eq slug_dot_eq)
qed

text \<open>The branch \<^verbatim>\<open>Release/v1.2_rc\<close>: environment \<^verbatim>\<open>release-v1-2-rc\<close>, suffix
  \<^verbatim>\<open>-release-v1.2-rc\<close>.\<close>

theorem branch_slugs_release:
  "\<not> truthy None \<and> \<not> isProductionBranch ''Release/v1.2_rc'' None
   \<and> ''Release/v1.2_rc'' \<noteq> ''develop''
   \<and> generateEnvironmentName ''Release/v1.2_rc'' None None False False None =
       ''release-v1-2-rc''
   \<and> generateImageSuffix ''Release/v1.2_rc'' None False False None = ''-release-v1.2-rc''"
  using branch_slugs_differ_in_dot [of None "''Release/v1.2_rc''" None None]
  by (simp add: truthy_def isProductionBranch_def is_alnum_def toLowerCase_char_def
      lower_letters_def upper_letters_def digits_def)

subsection \<open>C4: lookups that fail\<close>

text \<open>
  C4 asks that an error of the environment lookup other than not-found be handled as
  the application lookup handles it, a 401, 403 or 422 ending the run. The code does so
  for the application lookup only (\<open>application_lookup_fatal\<close>). What it does: an
  application lookup rejected with any other status leaves \<^verbatim>\<open>projectExists\<close> false and
  the validation goes on; an environment lookup rejected with any error at all, a 401,
  403 or 422 included, leaves \<^verbatim>\<open>environmentExists\<close> false and the validation succeeds.
\<close>

theorem lookup_errors_absorbed:
  "(getApplication ctx organization applicationName = Rejects appError
      \<and> \<not> fatal_status appError \<longrightarrow>
      (\<exists>environmentExists cs'.
          check_application ctx organization applicationName environmentName cs =
            Validated False environmentExists cs'))
   \<and> (getEnvironment ctx organization applicationName environmentName = Rejects envError
      \<longrightarrow> check_environment ctx organization applicationName environmentName projectExists cs =
            Validated projectExists False
              (cs @ [GetEnvironment organization applicationName environmentName]))"
  by (auto simp: check_application_def check_environment_def Let_def split: promise.splits)

text \<open>
  An environment lookup answered with a 403: the run is not fatal, logs in and publishes
  \<^verbatim>\<open>environment_exists\<close> as \<^verbatim>\<open>false\<close>.
\<close>

theorem environment_lookup_403_not_fatal:
  "getEnvironment
       (sample_world\<lparr>getEnvironment := (\<lambda>organization application environment.
            Rejects (http_error 403))\<rparr>) ''org'' (Some ''repo'') ''production'' =
     Rejects (http_error 403)
   \<and> fatal_status (http_error 403)
   \<and> check_environment
       (sample_world\<lparr>getEnvironment := (\<lambda>organization application environment.
            Rejects (http_error 403))\<rparr>) ''org'' (Some ''repo'') ''production'' True [] =
     Validated True False [GetEnvironment ''org'' (Some ''repo'') ''production'']
   \<and> \<not> fatal (run (sample_world\<lparr>getEnvironment := (\<lambda>organization application environment.
            Rejects (http_error 403))\<rparr>))
   \<and> login_performed (run (sample_world\<lparr>getEnvironment :=
            (\<lambda>organization application environment. Rejects (http_error 403))\<rparr>))
   \<and> published (run (sample_world\<lparr>getEnvironment := (\<lambda>organization application environment.
            Rejects (http_error 403))\<rparr>)) ''environment_exists'' = Some ''false''"
proof -
  let ?w = "sample_world\<lparr>getEnvironment := (\<lambda>organization application environment.
            Rejects (http_error 403))\<rparr>"
  have g: "getEnvironment ?w ''org'' (Some ''repo'') ''production'' = Rejects (http_error 403)"
    by simp
  have s: "fatal_status (http_error 403)"
    by (simp add: fatal_status_def http_error_def)
  from lookup_errors_absorbed [of ?w "''org''" "Some ''repo''" _ "''production''" "[]"
      "http_error 403" True] g
  have c: "check_environment ?w ''org'' (Some ''repo'') ''production'' True [] =
      Validated True False [GetEnvironment ''org'' (Some ''repo'') ''production'']"
    by simp
  have r: "\<not> fatal (run ?w)" "login_performed (run ?w)"
    "published (run ?w) ''environment_exists'' = Some ''false''"
    by code_simp+
  from g s c r show ?thesis by blast
qed

text \<open>The same answer to the application lookup ends the run.\<close>

lemma application_lookup_403_fatal:
  "run (sample_world\<lparr>getApplication := (\<lambda>organization application.
          Rejects (http_error 403))\<rparr>) =
     \<lparr>calls = [ListApplications ''org'', GetEcrLoginCredentials ''org'',
               GetApplication ''org'' (Some ''repo'')],
      outputs = [],
      failed = Some ''Failed to validate application: Request failed'',
      uncaught = None\<rparr>"
  by code_simp

subsection \<open>C5: production branches\<close>

text \<open>
  C5: for every branch ref (a ref that begins with \<^verbatim>\<open>refs/heads/\<close>) with no
  environment-name override, \<^verbatim>\<open>isProduction\<close> is true exactly when the branch name is
  in the production-branch set, which is \<^verbatim>\<open>main\<close> and \<^verbatim>\<open>master\<close> without a master-branch
  override and the override alone with one; then the environment name is \<^verbatim>\<open>production\<close>
  and the image suffix \<^verbatim>\<open>-latest\<close>.
\<close>

theorem production_branch_resolution:
  assumes "startsWith githubRef ''refs/heads/''"
  shows "\<exists>t. resolve githubRef githubRepository applicationOverride masterBranchOverride [] =
                Inr t
           \<and> (t_isProduction t \<longleftrightarrow>
                drop (length ''refs/heads/'') githubRef
                  \<in> (if masterBranchOverride = [] then {''main'', ''master''}
                     else {masterBranchOverride}))
           \<and> (t_isProduction t \<longrightarrow>
                t_environmentName t = ''production'' \<and> t_imageSuffix t = ''-latest'')"
proof -
  from assms obtain b where r: "githubRef = ''refs/heads/'' @ b"
    by (auto simp: startsWith_iff)
  show ?thesis
    unfolding r resolve_heads
    by (simp add: resolve_target_def generateEnvironmentName_def generateImageSuffix_def
        isProductionBranch_def truthy_def str_of_def Let_def)
qed

text \<open>
  The branch \<^verbatim>\<open>trunk\<close> under the override \<^verbatim>\<open>trunk\<close> is production; \<^verbatim>\<open>main\<close> under that
  override is not; \<^verbatim>\<open>master\<close> without an override is.
\<close>

theorem production_branch_examples:
  "startsWith ''refs/heads/trunk'' ''refs/heads/''
   \<and> (\<exists>t. resolve ''refs/heads/trunk'' ''owner/repo'' [] ''trunk'' [] = Inr t
          \<and> t_isProduction t \<and> t_environmentName t = ''production''
          \<and> t_imageSuffix t = ''-latest'')
   \<and> startsWith ''refs/heads/main'' ''refs/heads/''
   \<and> (\<exists>t. resolve ''refs/heads/main'' ''owner/repo'' [] ''trunk'' [] = Inr t
          \<and> \<not> t_isProduction t)
   \<and> startsWith ''refs/heads/master'' ''refs/heads/''
   \<and> (\<exists>t. resolve ''refs/heads/master'' ''owner/repo'' [] [] [] = Inr t
          \<and> t_isProduction t \<and> t_environmentName t = ''production''
          \<and> t_imageSuffix t = ''-latest'')"
  using production_branch_resolution [of "''refs/heads/trunk''" "''owner/repo''" "[]" "''trunk''"]
    production_branch_resolution [of "''refs/heads/main''" "''owner/repo''" "[]" "''trunk''"]
    production_branch_resolution [of "''refs/heads/master''" "''owner/repo''" "[]" "[]"]
  by (auto simp: startsWith_def)

subsection \<open>C6: the two suffix outputs\<close>

text \<open>
  C6: in every run, the output \<^verbatim>\<open>image_suffix_clean\<close> is set exactly when
  \<^verbatim>\<open>image_suffix\<close> is, and then it is \<^verbatim>\<open>image_suffix\<close> with its leading \<^verbatim>\<open>-\<close> stripped,
  which removes exactly one character, and \<^verbatim>\<open>-\<close> before it gives \<^verbatim>\<open>image_suffix\<close> back.
\<close>

theorem image_suffix_clean_roundtrip:
  "(case published (run ctx) ''image_suffix'' of
      None \<Rightarrow> published (run ctx) ''image_suffix_clean'' = None
    | Some suffix \<Rightarrow>
        published (run ctx) ''image_suffix_clean'' = Some (strip_leading_dash suffix)
        \<and> strip_leading_dash suffix = drop 1 suffix
        \<and> suffix = CHR ''-'' # strip_leading_dash suffix)"
proof (cases "past_validation ctx")
  case None
  from past_validation_none [OF None] show ?thesis
    by (simp add: published_def)
next
  case (Some st)
  then obtain t pe ee cs where st: "past_validation ctx = Some (t, pe, ee, cs)"
    by (cases st) auto
  from past_validation_target(1) [OF st]
  obtain body where b: "t_imageSuffix t = CHR ''-'' # body" ..
  note r = past_validation_run [OF st]
  from login_outputs [of ctx t pe ee cs]
  consider "outputs (run ctx) = []"
    | e where "outputs (run ctx) = final_outputs t pe ee
        \<or> outputs (run ctx) = (''stripped_endpoint'', e) # final_outputs t pe ee"
    unfolding r by blast
  then show ?thesis
  proof cases
    case 1
    then show ?thesis by (simp add: published_def)
  next
    case 2
    from published_final [OF b 2] show ?thesis
      by (simp add: published_def strip_leading_dash_def startsWith_def)
  qed
qed

text \<open>The sample run publishes \<^verbatim>\<open>-latest\<close> and \<^verbatim>\<open>latest\<close>.\<close>

theorem image_suffix_clean_latest:
  "published (run sample_world) ''image_suffix'' = Some ''-latest''
   \<and> published (run sample_world) ''image_suffix_clean'' = Some ''latest''"
proof -
  have s: "published (run sample_world) ''image_suffix'' = Some ''-latest''"
    by code_simp
  from image_suffix_clean_roundtrip [of sample_world] show ?thesis
    unfolding s by (simp add: strip_leading_dash_def startsWith_def)
qed

subsection \<open>C7: the login block\<close>

text \<open>
  C7 is about the login block (lines 1100 to 1159), entered once the input checks and
  the validation have passed. As stated, it lets the run fail there only when the login
  is required and the credentials are unavailable. The block fails in one more case: in
  the sample run, where usable credentials are retrieved and the login is not skipped, a
  login command that fails is rethrown by \<^verbatim>\<open>dockerLogin\<close> and caught at the end of the
  block, which ends the run fatally with no output set.
\<close>

theorem fatal_when_login_command_fails:
  "past_validation failing_login_world =
     Some (\<lparr>t_applicationName = Some ''repo'', t_isProduction = True,
             t_environmentName = ''production'', t_imageSuffix = ''-latest''\<rparr>, True, True,
           [ListApplications ''org'', GetEcrLoginCredentials ''org'',
            GetApplication ''org'' (Some ''repo''),
            GetEnvironment ''org'' (Some ''repo'') ''production''])
   \<and> has_credentials failing_login_world
   \<and> \<not> skip_login failing_login_world
   \<and> fatal (run failing_login_world)
   \<and> run failing_login_world =
       \<lparr>calls = [ListApplications ''org'', GetEcrLoginCredentials ''org'',
                 GetApplication ''org'' (Some ''repo''),
                 GetEnvironment ''org'' (Some ''repo'') ''production'',
                 GetEcrLoginCredentials ''org'',
                 Exec ''docker'' [''login'', ''https://registry.example'', ''--username'',
                                  ''user'', ''--password'', ''secret'']],
        outputs = [],
        failed = Some ''The process docker failed with exit code 1'',
        uncaught = None\<rparr>"
  by code_simp

text \<open>
  C7, amended: in the login block, that is for a run that has passed the input checks
  and the validation, the run fails exactly when the login is not skipped and either no
  usable credentials were retrieved or the login command fails. With the login skipped
  and no credentials the run is not fatal, publishes its outputs and runs no login; with
  the login not skipped and no credentials it ends fatally, with no output set and no
  login run.
\<close>

theorem login_block_fatal_iff:
  assumes "past_validation ctx = Some (t, projectExists, environmentExists, cs)"
  shows "(fatal (run ctx) \<longleftrightarrow>
            \<not> skip_login ctx \<and> (\<not> has_credentials ctx \<or> login_fails ctx))
       \<and> (skip_login ctx \<and> \<not> has_credentials ctx \<longrightarrow>
            \<not> fatal (run ctx)
            \<and> outputs (run ctx) = final_outputs t projectExists environmentExists
            \<and> \<not> login_performed (run ctx))
       \<and> (\<not> skip_login ctx \<and> \<not> has_credentials ctx \<longrightarrow>
            fatal (run ctx) \<and> outputs (run ctx) = [] \<and> \<not> login_performed (run ctx))"
proof -
  note r = past_validation_run [OF assms]
  note v = past_validation_target(2) [OF assms]
  have a: "fatal (run ctx) \<longleftrightarrow>
      \<not> skip_login ctx \<and> (\<not> has_credentials ctx \<or> login_fails ctx)"
    unfolding r by (rule login_fatal)
  have b: "outputs (run ctx) = final_outputs t projectExists environmentExists
      \<and> \<not> login_performed (run ctx)"
    if "skip_login ctx" "\<not> has_credentials ctx"
    using that v unfolding r
    by (simp add: login_without_credentials login_performed_def)
  have c: "outputs (run ctx) = [] \<and> \<not> login_performed (run ctx)"
    if "\<not> skip_login ctx" "\<not> has_credentials ctx"
    using that v unfolding r
    by (simp add: login_without_credentials login_performed_def setFailed_simps)
  from a b c show ?thesis by blast
qed

text \<open>
  The sample run with no credentials returned: with the login skipped it is not fatal
  and publishes \<^verbatim>\<open>-latest\<close>; with the login not skipped it is fatal and sets no output.
\<close>

theorem login_block_without_credentials:
  "past_validation (sample_world\<lparr>getEcrLoginCredentials := (\<lambda>n organization. Resolves None),
        skip_docker_login := ''true''\<rparr>) =
     Some (\<lparr>t_applicationName = Some ''repo'', t_isProduction = True,
             t_environmentName = ''production'', t_imageSuffix = ''-latest''\<rparr>, True, True,
           [ListApplications ''org'', GetEcrLoginCredentials ''org'',
            GetApplication ''org'' (Some ''repo''),
            GetEnvironment ''org'' (Some ''repo'') ''production''])
   \<and> \<not> fatal (run (sample_world\<lparr>getEcrLoginCredentials := (\<lambda>n organization. Resolves None),
        skip_docker_login := ''true''\<rparr>))
   \<and> published (run (sample_world\<lparr>getEcrLoginCredentials := (\<lambda>n organization. Resolves None),
        skip_docker_login := ''true''\<rparr>)) ''image_suffix'' = Some ''-latest''
   \<and> fatal (run (sample_world\<lparr>getEcrLoginCredentials := (\<lambda>n organization. Resolves None)\<rparr>))
   \<and> outputs (run (sample_world\<lparr>getEcrLoginCredentials :=
        (\<lambda>n organization. Resolves None)\<rparr>)) = []"
proof -
  let ?w = "sample_world\<lparr>getEcrLoginCredentials := (\<lambda>n organization. Resolves None),
        skip_docker_login := ''true''\<rparr>"
  let ?v = "sample_world\<lparr>getEcrLoginCredentials := (\<lambda>n organization. Resolves None)\<rparr>"
  let ?t = "\<lparr>t_applicationName = Some ''repo'', t_isProduction = True,
             t_environmentName = ''production'', t_imageSuffix = ''-latest''\<rparr>"
  let ?cs = "[ListApplications ''org'', GetEcrLoginCredentials ''org'',
            GetApplication ''org'' (Some ''repo''),
            GetEnvironment ''org'' (Some ''repo'') ''production'']"
  have pw: "past_validation ?w = Some (?t, True, True, ?cs)" by code_simp
  have pv: "past_validation ?v = Some (?t, True, True, ?cs)" by code_simp
  have sw: "skip_login ?w" "\<not> has_credentials ?w" by code_simp+
  have sv: "\<not> skip_login ?v" "\<not> has_credentials ?v" by code_simp+
  have f: "final_outputs ?t True True =
     [(''project_exists'', ''true''), (''environment_exists'', ''true''),
      (''quant_application'', ''repo''), (''environment_name'', ''production''),
      (''is_production'', ''true''), (''image_suffix'', ''-latest''),
      (''image_suffix_clean'', ''latest'')]" by code_simp
  from login_block_fatal_iff [OF pw] sw
  have "\<not> fatal (run ?w)" "outputs (run ?w) = final_outputs ?t True True"
    by blast+
  moreover from login_block_fatal_iff [OF pv] sv
  have "fatal (run ?v)" "outputs (run ?v) = []"
    by blast+
  ultimately show ?thesis using pw by (simp add: published_def f)
qed

subsection \<open>C8: refs the classifier refuses\<close>

text \<open>
  C8: for every ref that begins with none of \<^verbatim>\<open>refs/tags/\<close>, \<^verbatim>\<open>refs/pull/\<close> and
  \<^verbatim>\<open>refs/heads/\<close>, and for every pull-request ref with no numeric id to extract, the run
  ends fatally with a message that says why, having made no remote call and set no
  output. The message names the ref, unless an earlier input check has ended the run
  already (a required input not supplied, an empty ref or no repository).
\<close>

theorem bad_ref_fatal_before_remote_calls:
  assumes "GITHUB_REF ctx = Some githubRef"
    and "(\<not> startsWith githubRef ''refs/tags/'' \<and> \<not> startsWith githubRef ''refs/pull/''
           \<and> \<not> startsWith githubRef ''refs/heads/'')
         \<or> (startsWith githubRef ''refs/pull/'' \<and> extractPullRequestId githubRef = None)"
  shows "fatal (run ctx) \<and> calls (run ctx) = [] \<and> outputs (run ctx) = []
       \<and> (if quant_api_key ctx = [] then
            uncaught (run ctx) = Some ''Input required and not supplied: quant_api_key''
          else if quant_organization ctx = [] then
            uncaught (run ctx) = Some ''Input required and not supplied: quant_organization''
          else if githubRef = [] \<or> \<not> truthy (GITHUB_REPOSITORY ctx) then
            failed (run ctx) = Some
              ''GitHub context not available. This action must run in a GitHub Actions workflow.''
          else if startsWith githubRef ''refs/pull/'' then
            failed (run ctx) =
              Some (''Could not extract pull request ID from ref: '' @ githubRef)
          else failed (run ctx) = Some (''Unknown ref format: '' @ githubRef))"
proof -
  let ?msg = "if startsWith githubRef ''refs/pull/''
      then ''Could not extract pull request ID from ref: '' @ githubRef
      else ''Unknown ref format: '' @ githubRef"
  from assms(2) have c: "classify_ref githubRef = Inl ?msg"
    using classify_ref_unknown [of githubRef] classify_ref_no_id [of githubRef] by auto
  have s: "str_of (GITHUB_REF ctx) = githubRef"
    "truthy (GITHUB_REF ctx) \<longleftrightarrow> githubRef \<noteq> []"
    using assms(1) by (simp_all add: str_of_def truthy_def)
  consider (key) "quant_api_key ctx = []"
    | (org) "quant_api_key ctx \<noteq> []" "quant_organization ctx = []"
    | (env) "quant_api_key ctx \<noteq> []" "quant_organization ctx \<noteq> []"
        "githubRef = [] \<or> \<not> truthy (GITHUB_REPOSITORY ctx)"
    | (go) "quant_api_key ctx \<noteq> []" "quant_organization ctx \<noteq> []"
        "githubRef \<noteq> []" "truthy (GITHUB_REPOSITORY ctx)"
    by blast
  then show ?thesis
  proof cases
    case key
    then show ?thesis by (simp add: run_missing_key threw_def fatal_def)
  next
    case org
    then show ?thesis by (simp add: run_missing_organization threw_def fatal_def)
  next
    case env
    then have "\<not> truthy (GITHUB_REF ctx) \<or> \<not> truthy (GITHUB_REPOSITORY ctx)"
      using s by simp
    from run_no_context [OF env(1,2) this] env show ?thesis
      by (auto simp: setFailed_simps fatal_simps)
  next
    case go
    have "resolve (str_of (GITHUB_REF ctx)) (str_of (GITHUB_REPOSITORY ctx))
        (quant_application ctx) (master_branch_override ctx) (environment_name_override ctx) =
        Inl ?msg"
      unfolding s resolve_def c by simp
    from run_bad_ref [OF go(1,2) _ go(4) this] go s show ?thesis
      by (simp add: setFailed_simps fatal_simps)
  qed
qed

text \<open>
  The refs \<^verbatim>\<open>refs/pull/abc/merge\<close> (no numeric id) and \<^verbatim>\<open>refs/remotes/origin/main\<close>
  (no known prefix) in the sample run.
\<close>

theorem bad_ref_examples:
  "GITHUB_REF (sample_world\<lparr>GITHUB_REF := Some ''refs/pull/abc/merge''\<rparr>) =
       Some ''refs/pull/abc/merge''
   \<and> startsWith ''refs/pull/abc/merge'' ''refs/pull/''
   \<and> extractPullRequestId ''refs/pull/abc/merge'' = None
   \<and> fatal (run (sample_world\<lparr>GITHUB_REF := Some ''refs/pull/abc/merge''\<rparr>))
   \<and> calls (run (sample_world\<lparr>GITHUB_REF := Some ''refs/pull/abc/merge''\<rparr>)) = []
   \<and> failed (run (sample_world\<lparr>GITHUB_REF := Some ''refs/pull/abc/merge''\<rparr>)) =
       Some ''Could not extract pull request ID from ref: refs/pull/abc/merge''
   \<and> GITHUB_REF (sample_world\<lparr>GITHUB_REF := Some ''refs/remotes/origin/main''\<rparr>) =
       Some ''refs/remotes/origin/main''
   \<and> \<not> startsWith ''refs/remotes/origin/main'' ''refs/tags/''
   \<and> \<not> startsWith ''refs/remotes/origin/main'' ''refs/pull/''
   \<and> \<not> startsWith ''refs/remotes/origin/main'' ''refs/heads/''
   \<and> fatal (run (sample_world\<lparr>GITHUB_REF := Some ''refs/remotes/origin/main''\<rparr>))
   \<and> calls (run (sample_world\<lparr>GITHUB_REF := Some ''refs/remotes/origin/main''\<rparr>)) = []
   \<and> failed (run (sample_world\<lparr>GITHUB_REF := Some ''refs/remotes/origin/main''\<rparr>)) =
       Some ''Unknown ref format: refs/remotes/origin/main''"
proof -
  let ?p = "sample_world\<lparr>GITHUB_REF := Some ''refs/pull/abc/merge''\<rparr>"
  let ?u = "sample_world\<lparr>GITHUB_REF := Some ''refs/remotes/origin/main''\<rparr>"
  have hp: "GITHUB_REF ?p = Some ''refs/pull/abc/merge''"
    "startsWith ''refs/pull/abc/merge'' ''refs/pull/''"
    "extractPullRequestId ''refs/pull/abc/merge'' = None"
    by code_simp+
  have hu: "GITHUB_REF ?u = Some ''refs/remotes/origin/main''"
    "\<not> startsWith ''refs/remotes/origin/main'' ''refs/tags/''"
    "\<not> startsWith ''refs/remotes/origin/main'' ''refs/pull/''"
    "\<not> startsWith ''refs/remotes/origin/main'' ''refs/heads/''"
    by code_simp+
  have k: "quant_api_key ?p \<noteq> []" "quant_organization ?p \<noteq> []"
    "truthy (GITHUB_REPOSITORY ?p)"
    "quant_api_key ?u \<noteq> []" "quant_organization ?u \<noteq> []"
    "truthy (GITHUB_REPOSITORY ?u)"
    by code_simp+
  from bad_ref_fatal_before_remote_calls [of ?p "''refs/pull/abc/merge''"] hp k
  have p: "fatal (run ?p)" "calls (run ?p) = []"
    "failed (run ?p) = Some ''Could not extract pull request ID from ref: refs/pull/abc/merge''"
    by simp_all
  from bad_ref_fatal_before_remote_calls [of ?u "''refs/remotes/origin/main''"] hu k
  have u: "fatal (run ?u)" "calls (run ?u) = []"
    "failed (run ?u) = Some ''Unknown ref format: refs/remotes/origin/main''"
    by simp_all
  from hp hu p u show ?thesis by blast
qed

subsection \<open>C9: the suffix begins with a dash\<close>

text \<open>
  C9: for every ref descriptor and every combination of overrides, the image suffix is
  not empty and begins with \<^verbatim>\<open>-\<close>: it is one \<^verbatim>\<open>-\<close> before the slug of the override,
  the tag name, \<^verbatim>\<open>pr-\<close> and the id, \<^verbatim>\<open>latest\<close>, \<^verbatim>\<open>develop\<close> or the slug of the branch.
\<close>

theorem image_suffix_starts_with_dash:
  "(let suffix = t_imageSuffix (resolve_target d githubRepository applicationOverride
                    masterBranchOverride environmentNameOverride)
    in suffix \<noteq> [] \<and> hd suffix = CHR ''-''
       \<and> suffix =
           CHR ''-'' #
             (if environmentNameOverride \<noteq> [] then
                toLowerCase (replace_non_alnum environmentNameOverride)
              else if d_isTag d then d_branch d
              else if d_isPr d \<and> truthy (d_prId d) then ''pr-'' @ str_of (d_prId d)
              else if isProductionBranch (d_branch d) (Some masterBranchOverride) then ''latest''
              else if d_branch d = ''develop'' then ''develop''
              else toLowerCase (replace_non_alnum_dot (d_branch d))))"
  by (simp add: resolve_target_def generateImageSuffix_def Let_def)

text \<open>The branch with the empty name, the shortest case: the suffix is \<^verbatim>\<open>-\<close> alone.\<close>

theorem image_suffix_of_empty_branch:
  "t_imageSuffix (resolve_target
      \<lparr>d_branch = [], d_isTag = False, d_isPr = False, d_prId = None\<rparr> ''owner/repo'' [] [] []) =
     ''-''
   \<and> t_imageSuffix (resolve_target
      \<lparr>d_branch = ''pr-42'', d_isTag = False, d_isPr = True, d_prId = Some ''42''\<rparr>
        ''owner/repo'' [] [] []) = ''-pr-42''"
  using image_suffix_starts_with_dash
      [of "\<lparr>d_branch = [], d_isTag = False, d_isPr = False, d_prId = None\<rparr>"
        "''owner/repo''" "[]" "[]" "[]"]
    image_suffix_starts_with_dash
      [of "\<lparr>d_branch = ''pr-42'', d_isTag = False, d_isPr = True, d_prId = Some ''42''\<rparr>"
        "''owner/repo''" "[]" "[]" "[]"]
  by (simp add: Let_def isProductionBranch_def truthy_def str_of_def toLowerCase_def
      replace_non_alnum_dot_def)

subsection \<open>C10: a repository identifier without a slash\<close>

text \<open>
  C10: with no application override and a repository identifier that holds no \<^verbatim>\<open>/\<close>,
  the split has one segment, index 1 is out of range, and the application name is
  \<^verbatim>\<open>undefined\<close>. This is no input error: the run goes on to its first remote call.
\<close>

theorem repository_without_slash:
  assumes "quant_application ctx = []"
    and "GITHUB_REPOSITORY ctx = Some githubRepository"
    and "githubRepository \<noteq> []"
    and "CHR ''/'' \<notin> set githubRepository"
    and "quant_api_key ctx \<noteq> []" and "quant_organization ctx \<noteq> []"
    and "GITHUB_REF ctx = Some githubRef"
    and "classify_ref githubRef = Inr d"
  shows "index_at (split_str CHR ''/'' githubRepository) 1 = None
       \<and> (\<exists>t. resolve githubRef githubRepository (quant_application ctx)
                 (master_branch_override ctx) (environment_name_override ctx) = Inr t
               \<and> t_applicationName t = None)
       \<and> take 1 (calls (run ctx)) = [ListApplications (quant_organization ctx)]"
proof -
  let ?t = "resolve_target d githubRepository (quant_application ctx)
      (master_branch_override ctx) (environment_name_override ctx)"
  have i: "index_at (split_str CHR ''/'' githubRepository) 1 = None"
    using assms(4) by (simp add: split_str_no_sep index_at_def)
  have res: "resolve githubRef githubRepository (quant_application ctx)
      (master_branch_override ctx) (environment_name_override ctx) = Inr ?t"
    using assms(8) by (simp add: resolve_def)
  have app: "t_applicationName ?t = None"
    using assms(1) i by (simp add: resolve_target_def Let_def)
  have ne: "githubRef \<noteq> []"
    using assms(8) classify_ref_empty by auto
  have tr: "truthy (GITHUB_REF ctx)" "truthy (GITHUB_REPOSITORY ctx)"
    "str_of (GITHUB_REF ctx) = githubRef" "str_of (GITHUB_REPOSITORY ctx) = githubRepository"
    using assms(2,3,7) ne by (simp_all add: truthy_def str_of_def)
  have c: "take 1 (calls (run ctx)) = [ListApplications (quant_organization ctx)]"
  proof (cases "validate ctx (quant_organization ctx) (t_applicationName ?t)
      (t_environmentName ?t)")
    case (ValidationFailed out)
    from run_validation_failed [OF assms(5,6) tr(1,2) _ ValidationFailed] res tr
    have "run ctx = out" by simp
    with validate_failed(5) [OF ValidationFailed] show ?thesis by simp
  next
    case (Validated pe ee cs)
    then have "past_validation ctx = Some (?t, pe, ee, cs)"
      using assms(5,6) tr res by (simp add: past_validation_def)
    from past_validation_run [OF this] login_calls [of ctx ?t pe ee cs]
    obtain cs' where "calls (run ctx) = cs @ cs'" by auto
    with validate_ok(2) [OF Validated] show ?thesis by (cases cs) auto
  qed
  from i res app c show ?thesis by blast
qed

text \<open>
  The sample run in the repository \<^verbatim>\<open>repo\<close>: the lookups are made with no application
  name and the output \<^verbatim>\<open>quant_application\<close> is empty.
\<close>

theorem repository_without_slash_example:
  "quant_application (sample_world\<lparr>GITHUB_REPOSITORY := Some ''repo''\<rparr>) = []
   \<and> GITHUB_REPOSITORY (sample_world\<lparr>GITHUB_REPOSITORY := Some ''repo''\<rparr>) = Some ''repo''
   \<and> CHR ''/'' \<notin> set ''repo''
   \<and> classify_ref ''refs/heads/main'' =
       Inr \<lparr>d_branch = ''main'', d_isTag = False, d_isPr = False, d_prId = None\<rparr>
   \<and> index_at (split_str CHR ''/'' ''repo'') 1 = None
   \<and> take 1 (calls (run (sample_world\<lparr>GITHUB_REPOSITORY := Some ''repo''\<rparr>))) =
       [ListApplications ''org'']
   \<and> \<not> fatal (run (sample_world\<lparr>GITHUB_REPOSITORY := Some ''repo''\<rparr>))
   \<and> published (run (sample_world\<lparr>GITHUB_REPOSITORY := Some ''repo''\<rparr>))
       ''quant_application'' = Some []"
proof -
  let ?w = "sample_world\<lparr>GITHUB_REPOSITORY := Some ''repo''\<rparr>"
  have h: "quant_application ?w = []" "GITHUB_REPOSITORY ?w = Some ''repo''"
    "''repo'' \<noteq> []" "CHR ''/'' \<notin> set ''repo''"
    "quant_api_key ?w \<noteq> []" "quant_organization ?w \<noteq> []"
    "GITHUB_REF ?w = Some ''refs/heads/main''"
    "classify_ref ''refs/heads/main'' =
       Inr \<lparr>d_branch = ''main'', d_isTag = False, d_isPr = False, d_prId = None\<rparr>"
    by code_simp+
  have o: "quant_organization ?w = ''org''" by code_simp
  have p: "\<not> fatal (run ?w)" "published (run ?w) ''quant_application'' = Some []"
    by code_simp+
  from repository_without_slash [OF h]
  have "index_at (split_str CHR ''/'' ''repo'') 1 = None"
    "take 1 (calls (run ?w)) = [ListApplications ''org'']"
    unfolding o by blast+
  with h p show ?thesis by blast
qed

end
